theory Spec2Isabelle
  imports Complex_Main "HOL-Library.AList" "HOL-Library.Char_ord" "HOL-Library.List_Lexorder"
begin

section \<open>Python values\<close>

text \<open>
  The query engine of \<^verbatim>\<open>monocle/db/queries.py\<close> works on untyped Python values:
  parameter dictionaries, and query bodies made of nested dictionaries and lists. They are
  modelled by one datatype. A dictionary is an association list in insertion order with
  string keys (the only keys the source writes). A Python float is modelled by the
  rational number it stands for.
\<close>

datatype pyval =
    PNone
  | PBool bool
  | PInt int
  | PFloat rat
  | PStr string
  | PList "pyval list"
  | PTuple "pyval list"
  | PDict "(string \<times> pyval) list"

datatype py_error =
    TypeError
  | KeyError
  | ZeroDivisionError
  | AttributeError
  | StatisticsError
  | BackendError

text \<open>Truth value of a Python object, as tested by \<^verbatim>\<open>if x:\<close>.\<close>

fun truthy :: "pyval \<Rightarrow> bool" where
  "truthy PNone = False"
| "truthy (PBool b) = b"
| "truthy (PInt i) = (i \<noteq> 0)"
| "truthy (PFloat r) = (r \<noteq> 0)"
| "truthy (PStr s) = (s \<noteq> [])"
| "truthy (PList xs) = (xs \<noteq> [])"
| "truthy (PTuple xs) = (xs \<noteq> [])"
| "truthy (PDict kvs) = (kvs \<noteq> [])"

text \<open>\<^verbatim>\<open>isinstance(x, str)\<close>.\<close>

fun is_str :: "pyval \<Rightarrow> bool" where
  "is_str (PStr s) = True"
| "is_str v = False"

text \<open>
  \<^verbatim>\<open>list(x)\<close> where \<^verbatim>\<open>x\<close> is a string: the list of its characters, each a
  string of length one.
\<close>

definition list_of_str :: "string \<Rightarrow> pyval" where
  "list_of_str s = PList (map (\<lambda>c. PStr [c]) s)"

fun py_list :: "pyval \<Rightarrow> pyval" where
  "py_list (PStr s) = list_of_str s"
| "py_list v = v"

text \<open>
  A parameter dictionary. \<^verbatim>\<open>params.get(k)\<close> is \<open>pget\<close>,
  \<^verbatim>\<open>params.get(k, d)\<close> is \<open>pget_default\<close>, \<^verbatim>\<open>params[k]\<close> is
  \<open>pindex\<close> and raises \<^verbatim>\<open>KeyError\<close> on a missing key.
\<close>

type_synonym params = "string \<rightharpoonup> pyval"

definition pget :: "params \<Rightarrow> string \<Rightarrow> pyval" where
  "pget params k = (case params k of None \<Rightarrow> PNone | Some v \<Rightarrow> v)"

definition pget_default :: "params \<Rightarrow> string \<Rightarrow> pyval \<Rightarrow> pyval" where
  "pget_default params k d = (case params k of None \<Rightarrow> d | Some v \<Rightarrow> v)"

definition pindex :: "params \<Rightarrow> string \<Rightarrow> py_error + pyval" where
  "pindex params k = (case params k of None \<Rightarrow> Inl KeyError | Some v \<Rightarrow> Inr v)"

section \<open>Filter builder\<close>

text \<open>
  \<^verbatim>\<open>generate_filter(repository_fullname, params)\<close>. The two range dictionaries start
  with the \<^verbatim>\<open>format\<close> entry; an assignment \<^verbatim>\<open>d['gte'] = v\<close> adds the key at the
  end (\<open>AList.update\<close>).
\<close>

definition generate_filter :: "string \<Rightarrow> params \<Rightarrow> pyval list" where
  "generate_filter repository_fullname params =
    (let gte = pget params ''gte'';
         lte = pget params ''lte'';
         on_cc_gte = pget params ''on_cc_gte'';
         on_cc_lte = pget params ''on_cc_lte'';
         etype = pget params ''etype'';
         author = pget params ''author'';
         approval = pget params ''approval'';
         state = pget params ''state'';
         ec_same_date = pget params ''ec_same_date'';
         etype = (if is_str etype then py_list etype else etype);
         created_at = [(''format'', PStr ''epoch_millis'')];
         on_created_at = [(''format'', PStr ''epoch_millis'')];
         created_at = (if truthy gte then AList.update ''gte'' gte created_at else created_at);
         created_at = (if truthy lte then AList.update ''lte'' lte created_at else created_at);
         on_cc_gte = (if truthy ec_same_date then gte else on_cc_gte);
         on_cc_lte = (if truthy ec_same_date then lte else on_cc_lte);
         on_created_at =
           (if truthy on_cc_gte \<or> truthy ec_same_date
            then AList.update ''gte'' on_cc_gte on_created_at else on_created_at);
         on_created_at =
           (if truthy on_cc_lte \<or> truthy ec_same_date
            then AList.update ''lte'' on_cc_lte on_created_at else on_created_at);
         qfilter =
           [PDict [(''regexp'',
               PDict [(''repository_fullname'', PDict [(''value'', PStr repository_fullname)])])],
            PDict [(''range'', PDict [(''created_at'', PDict created_at)])],
            PDict [(''range'', PDict [(''on_created_at'', PDict on_created_at)])]];
         qfilter =
           (if truthy etype then qfilter @ [PDict [(''terms'', PDict [(''type'', etype)])]]
            else qfilter);
         qfilter =
           (if truthy author then qfilter @ [PDict [(''term'', PDict [(''author'', author)])]]
            else qfilter);
         qfilter =
           (if truthy state then qfilter @ [PDict [(''term'', PDict [(''state'', state)])]]
            else qfilter);
         qfilter =
           (if truthy approval
            then qfilter @ [PDict [(''term'', PDict [(''approval'', approval)])]]
            else qfilter)
     in qfilter)"

text \<open>\<^verbatim>\<open>generate_must_not(params, exclude_change=True)\<close>.\<close>

definition generate_must_not :: "params \<Rightarrow> bool \<Rightarrow> py_error + pyval list" where
  "generate_must_not params exclude_change =
    (case pindex params ''exclude_authors'' of
       Inl e \<Rightarrow> Inl e
     | Inr exclude_authors \<Rightarrow>
         (let must_not = [];
              must_not =
                (if truthy exclude_authors
                 then must_not @ [PDict [(''terms'', PDict [(''author'', exclude_authors)])]]
                 else must_not);
              must_not =
                (if exclude_change
                 then must_not @ [PDict [(''term'', PDict [(''type'', PStr ''Change'')])]]
                 else must_not)
          in Inr must_not))"

text \<open>\<^verbatim>\<open>set_params_defaults(params)\<close>: a new dictionary with exactly eleven keys.\<close>

definition set_params_defaults :: "params \<Rightarrow> params" where
  "set_params_defaults params =
    [''gte'' \<mapsto> pget params ''gte'',
     ''lte'' \<mapsto> pget params ''lte'',
     ''on_cc_gte'' \<mapsto> pget params ''on_cc_gte'',
     ''on_cc_lte'' \<mapsto> pget params ''on_cc_lte'',
     ''ec_same_date'' \<mapsto> pget params ''ec_same_date'',
     ''etype'' \<mapsto> pget params ''etype'',
     ''author'' \<mapsto> pget params ''author'',
     ''interval'' \<mapsto> pget_default params ''interval'' (PStr ''3h''),
     ''size'' \<mapsto> pget_default params ''size'' (PInt 10),
     ''exclude_authors'' \<mapsto> pget_default params ''exclude_authors'' (PList []),
     ''approval'' \<mapsto> pget params ''approval'']"

section \<open>Event store client and query execution\<close>

text \<open>
  The event store is external. Its client \<^verbatim>\<open>es\<close> offers \<^verbatim>\<open>search\<close>,
  \<^verbatim>\<open>count\<close> and (through the scan helper) a cursor over the matching documents;
  each takes the index and a query body, and each may raise (\<open>Inl\<close>). A search
  response is its \<^verbatim>\<open>aggregations\<close> dictionary: every aggregation holds either a
  \<^verbatim>\<open>value\<close> or a list of \<^verbatim>\<open>buckets\<close>, a bucket having a \<^verbatim>\<open>key\<close> and a
  \<^verbatim>\<open>doc_count\<close>. A count response is its \<^verbatim>\<open>count\<close> entry. A scanned document is
  its \<^verbatim>\<open>_source\<close>; its two timestamps are the values \<^verbatim>\<open>datetime.strptime\<close> reads
  from it, in seconds, and \<open>event_author\<close> is its \<^verbatim>\<open>author\<close>.
\<close>

record bucket =
  key :: string
  doc_count :: int

datatype agg = AggValue pyval | AggBuckets "bucket list"

type_synonym response = "string \<rightharpoonup> agg"

record event =
  repository_fullname_and_number :: string
  created_at :: int
  on_created_at :: int
  event_author :: string

record es_client =
  es_search :: "string \<Rightarrow> pyval \<Rightarrow> py_error + response"
  es_count :: "string \<Rightarrow> pyval \<Rightarrow> py_error + int"
  es_scan :: "string \<Rightarrow> pyval \<Rightarrow> py_error + event list"

text \<open>Sequencing of computations that may raise: the first exception ends the function.\<close>

definition and_then :: "'e + 'a \<Rightarrow> ('a \<Rightarrow> 'e + 'b) \<Rightarrow> 'e + 'b" where
  "and_then m f = (case m of Inl e \<Rightarrow> Inl e | Inr x \<Rightarrow> f x)"

text \<open>
  What \<^verbatim>\<open>run_query\<close> returns: the response, or the empty list \<^verbatim>\<open>[]\<close> when the
  search raised.
\<close>

datatype query_data = EmptyList | Response response

definition run_query :: "es_client \<Rightarrow> string \<Rightarrow> pyval \<Rightarrow> query_data" where
  "run_query es index body =
    (case es_search es index body of Inl e \<Rightarrow> EmptyList | Inr res \<Rightarrow> Response res)"

text \<open>
  The subscripts \<^verbatim>\<open>data['aggregations']\<close>, \<^verbatim>\<open>[name]\<close>, \<^verbatim>\<open>['value']\<close> and
  \<^verbatim>\<open>['buckets']\<close>. Subscripting a list with a string raises \<^verbatim>\<open>TypeError\<close>; a missing
  key raises \<^verbatim>\<open>KeyError\<close>.
\<close>

fun aggregations :: "query_data \<Rightarrow> py_error + response" where
  "aggregations EmptyList = Inl TypeError"
| "aggregations (Response res) = Inr res"

definition agg_of :: "response \<Rightarrow> string \<Rightarrow> py_error + agg" where
  "agg_of res name = (case res name of None \<Rightarrow> Inl KeyError | Some a \<Rightarrow> Inr a)"

fun value_of :: "agg \<Rightarrow> py_error + pyval" where
  "value_of (AggValue v) = Inr v"
| "value_of (AggBuckets bs) = Inl KeyError"

fun buckets_of :: "agg \<Rightarrow> py_error + bucket list" where
  "buckets_of (AggBuckets bs) = Inr bs"
| "buckets_of (AggValue v) = Inl KeyError"

text \<open>
  The \<^verbatim>\<open>"query"\<close> entry every metric function writes:
  \<^verbatim>\<open>{"bool": {"filter": generate_filter(...), "must_not": generate_must_not(...)}}\<close>.
\<close>

definition bool_query :: "string \<Rightarrow> params \<Rightarrow> bool \<Rightarrow> py_error + pyval" where
  "bool_query repository_fullname params exclude_change =
    (let qfilter = generate_filter repository_fullname params in
     and_then (generate_must_not params exclude_change) (\<lambda>must_not.
       Inr (PDict [(''bool'',
         PDict [(''filter'', PList qfilter), (''must_not'', PList must_not)])])))"

section \<open>Metric functions\<close>

text \<open>\<^verbatim>\<open>count_events\<close>: the count, or the empty dictionary when the backend raised.\<close>

definition count_events :: "es_client \<Rightarrow> string \<Rightarrow> string \<Rightarrow> params \<Rightarrow> py_error + pyval" where
  "count_events es index repository_fullname params =
    (let params = set_params_defaults params in
     and_then (bool_query repository_fullname params True) (\<lambda>query.
       let body = PDict [(''query'', query)] in
       case es_count es index body of
         Inl e \<Rightarrow> Inr (PDict [])
       | Inr n \<Rightarrow> Inr (PInt n)))"

definition count_authors :: "es_client \<Rightarrow> string \<Rightarrow> string \<Rightarrow> params \<Rightarrow> py_error + pyval" where
  "count_authors es index repository_fullname params =
    (let params = set_params_defaults params in
     and_then (bool_query repository_fullname params True) (\<lambda>query.
       let body = PDict
             [(''aggs'', PDict [(''agg1'', PDict [(''cardinality'',
                 PDict [(''field'', PStr ''author''), (''precision_threshold'', PInt 3000)])])]),
              (''size'', PInt 0),
              (''query'', query)];
           data = run_query es index body
       in and_then (aggregations data) (\<lambda>aggs.
          and_then (agg_of aggs ''agg1'') value_of)))"

definition events_histo ::
  "es_client \<Rightarrow> string \<Rightarrow> string \<Rightarrow> params \<Rightarrow> py_error + (bucket list \<times> pyval)" where
  "events_histo es index repository_fullname params =
    (let params = set_params_defaults params in
     and_then (pindex params ''interval'') (\<lambda>interval.
     and_then (bool_query repository_fullname params True) (\<lambda>query.
       let body = PDict
             [(''aggs'', PDict
                [(''agg1'', PDict [(''date_histogram'',
                    PDict [(''field'', PStr ''created_at''), (''interval'', interval)])]),
                 (''avg_count'', PDict [(''avg_bucket'',
                    PDict [(''buckets_path'', PStr ''agg1>_count'')])])]),
              (''size'', PInt 0),
              (''query'', query)];
           data = run_query es index body
       in and_then (aggregations data) (\<lambda>aggs.
          and_then (agg_of aggs ''agg1'') (\<lambda>agg1.
          and_then (buckets_of agg1) (\<lambda>buckets.
          and_then (aggregations data) (\<lambda>aggs.
          and_then (agg_of aggs ''avg_count'') (\<lambda>avg_count.
          and_then (value_of avg_count) (\<lambda>v. Inr (buckets, v))))))))))"

text \<open>
  \<^verbatim>\<open>statistics.mean\<close> and \<^verbatim>\<open>statistics.median\<close> on a list of integers; both raise
  \<^verbatim>\<open>StatisticsError\<close> on an empty list.
\<close>

definition mean :: "int list \<Rightarrow> py_error + rat" where
  "mean xs =
    (if xs = [] then Inl StatisticsError
     else Inr (of_int (sum_list xs) / of_int (int (length xs))))"

definition median :: "int list \<Rightarrow> py_error + rat" where
  "median xs =
    (let s = sort xs; n = length s in
     if n = 0 then Inl StatisticsError
     else if n mod 2 = 1 then Inr (of_int (s ! (n div 2)))
     else Inr ((of_int (s ! (n div 2 - 1)) + of_int (s ! (n div 2))) / 2))"

record top_result =
  buckets :: "bucket list"
  count_avg :: rat
  count_median :: rat

text \<open>\<^verbatim>\<open>_events_top(es, index, repository_fullname, field, params)\<close>.\<close>

definition events_top ::
  "es_client \<Rightarrow> string \<Rightarrow> string \<Rightarrow> string \<Rightarrow> params \<Rightarrow> py_error + top_result" where
  "events_top es index repository_fullname field params =
    and_then (pindex params ''size'') (\<lambda>size.
    and_then (bool_query repository_fullname params True) (\<lambda>query.
      let body = PDict
            [(''aggs'', PDict [(''agg1'', PDict [(''terms'',
                PDict [(''field'', PStr field), (''size'', size),
                       (''order'', PDict [(''_count'', PStr ''desc'')])])])]),
             (''size'', PInt 0),
             (''query'', query)];
          data = run_query es index body
      in and_then (aggregations data) (\<lambda>aggs.
         and_then (agg_of aggs ''agg1'') (\<lambda>agg1.
         and_then (buckets_of agg1) (\<lambda>bs.
           let count_series = map doc_count bs in
           and_then (if count_series \<noteq> [] then mean count_series else Inr 0) (\<lambda>avg.
           and_then (if count_series \<noteq> [] then median (sort count_series) else Inr 0)
             (\<lambda>med.
           and_then (aggregations data) (\<lambda>aggs.
           and_then (agg_of aggs ''agg1'') (\<lambda>agg1.
           and_then (buckets_of agg1) (\<lambda>bs.
             Inr \<lparr>buckets = bs, count_avg = avg, count_median = med\<rparr>))))))))))"

definition events_top_authors ::
  "es_client \<Rightarrow> string \<Rightarrow> string \<Rightarrow> params \<Rightarrow> py_error + top_result" where
  "events_top_authors es index repository_fullname params =
    (let params = set_params_defaults params in
     events_top es index repository_fullname ''author'' params)"

definition changes_top_approval ::
  "es_client \<Rightarrow> string \<Rightarrow> string \<Rightarrow> params \<Rightarrow> py_error + top_result" where
  "changes_top_approval es index repository_fullname params =
    (let params = set_params_defaults params;
         params = params(''etype'' \<mapsto> PStr ''ChangeReviewedEvent'') in
     events_top es index repository_fullname ''approval'' params)"

definition changes_top_commented ::
  "es_client \<Rightarrow> string \<Rightarrow> string \<Rightarrow> params \<Rightarrow> py_error + top_result" where
  "changes_top_commented es index repository_fullname params =
    (let params = set_params_defaults params;
         params = params(''etype'' \<mapsto> PStr ''ChangeCommentedEvent'') in
     events_top es index repository_fullname ''repository_fullname_and_number'' params)"

definition changes_top_reviewed ::
  "es_client \<Rightarrow> string \<Rightarrow> string \<Rightarrow> params \<Rightarrow> py_error + top_result" where
  "changes_top_reviewed es index repository_fullname params =
    (let params = set_params_defaults params;
         params = params(''etype'' \<mapsto> PStr ''ChangeReviewedEvent'') in
     events_top es index repository_fullname ''repository_fullname_and_number'' params)"

definition authors_top_reviewed ::
  "es_client \<Rightarrow> string \<Rightarrow> string \<Rightarrow> params \<Rightarrow> py_error + top_result" where
  "authors_top_reviewed es index repository_fullname params =
    (let params = set_params_defaults params;
         params = params(''etype'' \<mapsto> PStr ''ChangeReviewedEvent'') in
     events_top es index repository_fullname ''on_author'' params)"

definition authors_top_commented ::
  "es_client \<Rightarrow> string \<Rightarrow> string \<Rightarrow> params \<Rightarrow> py_error + top_result" where
  "authors_top_commented es index repository_fullname params =
    (let params = set_params_defaults params;
         params = params(''etype'' \<mapsto> PStr ''ChangeCommentedEvent'') in
     events_top es index repository_fullname ''on_author'' params)"

subsection \<open>Peer exchange strength\<close>

text \<open>
  \<^verbatim>\<open>tuple(sorted((author, bucket['key'])))\<close>: the two names in ascending order (the sort is
  stable, so the pair is swapped only when the second is smaller).
\<close>

definition peers_id :: "string \<Rightarrow> string \<Rightarrow> string \<times> string" where
  "peers_id a b = (if b < a then (b, a) else (a, b))"

text \<open>
  The dictionary \<^verbatim>\<open>peers_strength\<close> is an association list in insertion order.
  \<^verbatim>\<open>d.setdefault(k, 0)\<close> adds a missing key at the end; \<^verbatim>\<open>d[k] += c\<close> changes the
  entry in place.
\<close>

type_synonym strengths = "((string \<times> string) \<times> int) list"

definition setdefault :: "'k \<Rightarrow> 'v \<Rightarrow> ('k \<times> 'v) list \<Rightarrow> ('k \<times> 'v) list" where
  "setdefault k d ps = (case map_of ps k of None \<Rightarrow> ps @ [(k, d)] | Some v \<Rightarrow> ps)"

text \<open>The inner loop, over the buckets one author's query returned.\<close>

fun peers_buckets_loop :: "string \<Rightarrow> bucket list \<Rightarrow> strengths \<Rightarrow> strengths" where
  "peers_buckets_loop author [] peers_strength = peers_strength"
| "peers_buckets_loop author (bucket # bs) peers_strength =
    (if key bucket = author then peers_buckets_loop author bs peers_strength
     else
       let pid = peers_id author (key bucket);
           peers_strength = setdefault pid 0 peers_strength;
           peers_strength = AList.map_entry pid (\<lambda>v. v + doc_count bucket) peers_strength
       in peers_buckets_loop author bs peers_strength)"

text \<open>
  The outer loop, over the top authors. The assignment \<^verbatim>\<open>params['author'] = author\<close>
  stays in force for the later iterations, which overwrite it.
\<close>

fun peers_authors_loop ::
  "es_client \<Rightarrow> string \<Rightarrow> string \<Rightarrow> params \<Rightarrow> string list \<Rightarrow> strengths \<Rightarrow> py_error + strengths"
where
  "peers_authors_loop es index repository_fullname params [] peers_strength = Inr peers_strength"
| "peers_authors_loop es index repository_fullname params (author # authors) peers_strength =
    (let params = params(''author'' \<mapsto> PStr author) in
     and_then (events_top es index repository_fullname ''on_author'' params) (\<lambda>top.
       peers_authors_loop es index repository_fullname params authors
         (peers_buckets_loop author (buckets top) peers_strength)))"

text \<open>
  \<^verbatim>\<open>sorted(xs, key=lambda x: x[1], reverse=True)\<close>: a stable sort in descending order of
  the second component (entries with equal keys keep their order).
\<close>

definition sorted_desc :: "('a \<times> int) list \<Rightarrow> ('a \<times> int) list" where
  "sorted_desc xs = rev (sort_key snd (rev xs))"

definition peers_exchange_strength ::
  "es_client \<Rightarrow> string \<Rightarrow> string \<Rightarrow> params \<Rightarrow> py_error + strengths" where
  "peers_exchange_strength es index repository_fullname params =
    (let params = set_params_defaults params;
         params = params(''etype'' \<mapsto>
           PTuple [PStr ''ChangeReviewedEvent'', PStr ''ChangeCommentedEvent'']) in
     and_then (events_top es index repository_fullname ''author'' params) (\<lambda>top.
       let authors = map key (buckets top) in
       and_then (peers_authors_loop es index repository_fullname params authors [])
         (\<lambda>peers_strength. Inr (sorted_desc peers_strength))))"

subsection \<open>Merge durations\<close>

text \<open>
  The \<^verbatim>\<open>ranges\<close> of the range aggregation that
  \<^verbatim>\<open>change_merged_count_by_duration\<close> issues on the field \<^verbatim>\<open>duration\<close>.
\<close>

definition duration_ranges :: "pyval list" where
  "duration_ranges =
    [PDict [(''to'', PInt (24 * 3600))],
     PDict [(''from'', PInt (24 * 3600 + 1)), (''to'', PInt (7 * 24 * 3600))],
     PDict [(''from'', PInt (7 * 24 * 3600 + 1)), (''to'', PInt (31 * 24 * 3600))],
     PDict [(''from'', PInt (31 * 24 * 3600 + 1))]]"

definition change_merged_count_by_duration ::
  "es_client \<Rightarrow> string \<Rightarrow> string \<Rightarrow> params \<Rightarrow> py_error + bucket list" where
  "change_merged_count_by_duration es index repository_fullname params =
    (let params = set_params_defaults params;
         params = params(''etype'' \<mapsto> PTuple [PStr ''Change'']);
         params = params(''state'' \<mapsto> PStr ''MERGED'') in
     and_then (bool_query repository_fullname params False) (\<lambda>query.
       let body = PDict
             [(''aggs'', PDict [(''agg1'', PDict [(''range'',
                 PDict [(''field'', PStr ''duration''),
                        (''ranges'', PList duration_ranges),
                        (''keyed'', PBool True)])])]),
              (''size'', PInt 0),
              (''query'', query)];
           data = run_query es index body
       in and_then (aggregations data) (\<lambda>aggs.
          and_then (agg_of aggs ''agg1'') buckets_of)))"

text \<open>
  The backend's contract for one range of a range aggregation: a document falls in the
  range when its value is at least \<^verbatim>\<open>from\<close> (if given) and less than \<^verbatim>\<open>to\<close>
  (if given).
\<close>

fun in_range :: "pyval \<Rightarrow> int \<Rightarrow> bool" where
  "in_range (PDict r) d =
    ((case map_of r ''from'' of Some (PInt f) \<Rightarrow> f \<le> d | _ \<Rightarrow> True) \<and>
     (case map_of r ''to'' of Some (PInt t) \<Rightarrow> d < t | _ \<Rightarrow> True))"
| "in_range v d = False"

subsection \<open>Closed-change ratios\<close>

text \<open>
  Python's true division \<^verbatim>\<open>a / b\<close> on numbers (a boolean counts as 0 or 1), giving a
  float; any other operand raises \<^verbatim>\<open>TypeError\<close>.
\<close>

fun num_of :: "pyval \<Rightarrow> rat option" where
  "num_of (PBool b) = Some (if b then 1 else 0)"
| "num_of (PInt i) = Some (of_int i)"
| "num_of (PFloat r) = Some r"
| "num_of v = None"

definition py_truediv :: "pyval \<Rightarrow> pyval \<Rightarrow> py_error + rat" where
  "py_truediv a b =
    (case num_of a of
       None \<Rightarrow> Inl TypeError
     | Some x \<Rightarrow>
        (case num_of b of
           None \<Rightarrow> Inl TypeError
         | Some y \<Rightarrow> if y = 0 then Inl ZeroDivisionError else Inr (x / y)))"

text \<open>\<^verbatim>\<open>round(x, 1)\<close>: to one decimal place, a tie going to the even digit.\<close>

definition round_half_even :: "rat \<Rightarrow> int" where
  "round_half_even x =
    (let f = \<lfloor>x\<rfloor>; r = x - of_int f in
     if r < 1 / 2 then f else if 1 / 2 < r then f + 1 else if even f then f else f + 1)"

definition py_round1 :: "rat \<Rightarrow> rat" where
  "py_round1 x = of_int (round_half_even (x * 10)) / 10"

text \<open>\<^verbatim>\<open>d[k]\<close> on a dictionary.\<close>

definition dict_index :: "(string \<times> pyval) list \<Rightarrow> string \<Rightarrow> py_error + pyval" where
  "dict_index d k = (case map_of d k of None \<Rightarrow> Inl KeyError | Some v \<Rightarrow> Inr v)"

text \<open>The first loop of \<^verbatim>\<open>changes_closed_ratios\<close>: one count per event type.\<close>

fun count_etypes_loop ::
  "es_client \<Rightarrow> string \<Rightarrow> string \<Rightarrow> params \<Rightarrow> string list \<Rightarrow> (string \<times> pyval) list
    \<Rightarrow> py_error + (string \<times> pyval) list"
where
  "count_etypes_loop es index repository_fullname params [] ret = Inr ret"
| "count_etypes_loop es index repository_fullname params (etype # etypes) ret =
    (let params = params(''etype'' \<mapsto> PTuple [PStr etype]) in
     and_then (count_events es index repository_fullname params) (\<lambda>c.
       count_etypes_loop es index repository_fullname params etypes (AList.update etype c ret)))"

definition changes_closed_ratios ::
  "es_client \<Rightarrow> string \<Rightarrow> string \<Rightarrow> params \<Rightarrow> py_error + (string \<times> pyval) list" where
  "changes_closed_ratios es index repository_fullname params =
    (let params = set_params_defaults params;
         etypes = [''ChangeCreatedEvent'', ''ChangeMergedEvent'', ''ChangeAbandonedEvent''] in
     and_then (count_etypes_loop es index repository_fullname params etypes []) (\<lambda>ret.
     and_then (dict_index ret ''ChangeMergedEvent'') (\<lambda>merged.
     and_then (dict_index ret ''ChangeCreatedEvent'') (\<lambda>created.
     and_then (py_truediv merged created) (\<lambda>q.
       let ret = AList.update ''merged/created_ratio'' (PFloat (py_round1 (q * 100))) ret in
     and_then (dict_index ret ''ChangeAbandonedEvent'') (\<lambda>abandoned.
     and_then (dict_index ret ''ChangeMergedEvent'') (\<lambda>merged.
     and_then (py_truediv abandoned merged) (\<lambda>q.
       let ret = AList.update ''abandoned/created_ratio'' (PFloat (py_round1 (q * 100))) ret;
           ret = fold AList.delete etypes ret
       in Inr ret))))))))"

section \<open>First event on changes\<close>

text \<open>
  \<^verbatim>\<open>_scan_events\<close>: the scan is not guarded, so an exception of the backend goes to the
  caller.
\<close>

definition scan_events ::
  "es_client \<Rightarrow> string \<Rightarrow> string \<Rightarrow> params \<Rightarrow> py_error + event list" where
  "scan_events es index repository_fullname params =
    (let source = pget_default params ''field'' (PList []) in
     and_then (bool_query repository_fullname params True) (\<lambda>query.
       let body = PDict [(''_source'', source), (''query'', query)] in
       es_scan es index body))"

text \<open>\<^verbatim>\<open>itertools.groupby\<close>: the runs of consecutive elements with equal keys.\<close>

function groupby :: "('a \<Rightarrow> 'k) \<Rightarrow> 'a list \<Rightarrow> ('k \<times> 'a list) list" where
  "groupby f [] = []"
| "groupby f (x # xs) =
    (f x, x # takeWhile (\<lambda>y. f y = f x) xs) # groupby f (dropWhile (\<lambda>y. f y = f x) xs)"
  by pat_completeness auto
termination
  by (relation "measure (\<lambda>(f, xs). length xs)") (auto simp: length_dropWhile_le less_Suc_eq_le)

text \<open>
  The entry \<^verbatim>\<open>groups[pr]\<close>. A \<^verbatim>\<open>datetime\<close> is a number of seconds, a
  \<^verbatim>\<open>timedelta\<close> a difference of two; \<^verbatim>\<open>None\<close> is \<open>None\<close>.
\<close>

record change_group =
  change_created_at :: "int option"
  first_event_created_at :: int
  first_event_author :: "string option"
  delta :: "int option"

text \<open>The body of the loop over the events of one change.\<close>

definition group_event :: "change_group \<Rightarrow> event \<Rightarrow> change_group" where
  "group_event g event =
    (let g = (if change_created_at g = None
              then g\<lparr>change_created_at := Some (on_created_at event)\<rparr> else g);
         event_created_at = created_at event
     in if event_created_at < first_event_created_at g
        then g\<lparr>first_event_created_at := event_created_at,
               delta := map_option (\<lambda>c. event_created_at - c) (change_created_at g),
               first_event_author := Some (event_author event)\<rparr>
        else g)"

text \<open>
  The loop over the groups; \<open>now\<close> is what \<^verbatim>\<open>datetime.now()\<close> returns.
\<close>

fun groups_loop ::
  "int \<Rightarrow> (string \<times> event list) list \<Rightarrow> (string \<times> change_group) list
    \<Rightarrow> (string \<times> change_group) list"
where
  "groups_loop now [] groups = groups"
| "groups_loop now ((pr, events) # rest) groups =
    groups_loop now rest
      (AList.update pr
        (fold (\<lambda>event g. group_event g event) events
          \<lparr>change_created_at = None, first_event_created_at = now,
           first_event_author = None, delta = None\<rparr>)
        groups)"

text \<open>
  \<^verbatim>\<open>timedelta.seconds\<close>: the seconds left once the whole days are taken out, between 0
  and 86399.
\<close>

definition timedelta_seconds :: "int \<Rightarrow> int" where
  "timedelta_seconds d = d mod 86400"

text \<open>
  The loop over \<^verbatim>\<open>groups.values()\<close>; reading \<^verbatim>\<open>.seconds\<close> of \<^verbatim>\<open>None\<close> raises
  \<^verbatim>\<open>AttributeError\<close>.
\<close>

fun summary_loop ::
  "change_group list \<Rightarrow> int \<times> (string option \<times> int) list
    \<Rightarrow> py_error + (int \<times> (string option \<times> int) list)"
where
  "summary_loop [] ret = Inr ret"
| "summary_loop (pr_data # rest) (delay, counts) =
    (case delta pr_data of
       None \<Rightarrow> Inl AttributeError
     | Some d \<Rightarrow>
        (let delay = delay + timedelta_seconds d;
             counts = setdefault (first_event_author pr_data) 0 counts;
             counts = AList.map_entry (first_event_author pr_data) (\<lambda>v. v + 1) counts
         in summary_loop rest (delay, counts)))"

record first_event_result =
  first_event_delay_avg :: int
  top_authors :: "(string option \<times> int) list"

text \<open>
  \<^verbatim>\<open>_first_event_on_changes\<close>. The sum of the \<^verbatim>\<open>.seconds\<close> is not negative, so
  \<^verbatim>\<open>int(total / len(groups))\<close> is the integer quotient.
\<close>

definition first_event_on_changes ::
  "es_client \<Rightarrow> string \<Rightarrow> string \<Rightarrow> params \<Rightarrow> int \<Rightarrow> py_error + first_event_result" where
  "first_event_on_changes es index repository_fullname params now =
    (let params = set_params_defaults params in
     and_then (scan_events es index repository_fullname params) (\<lambda>events.
       let events = sort_key repository_fullname_and_number events;
           groups = groups_loop now (groupby repository_fullname_and_number events) [] in
       and_then (summary_loop (map snd groups) (0, [])) (\<lambda>(delay, counts).
         if length groups = 0 then Inl ZeroDivisionError
         else Inr \<lparr>first_event_delay_avg = delay div int (length groups),
                   top_authors = take 10 (sorted_desc counts)\<rparr>)))"

definition first_comment_on_changes ::
  "es_client \<Rightarrow> string \<Rightarrow> string \<Rightarrow> params \<Rightarrow> int \<Rightarrow> py_error + first_event_result" where
  "first_comment_on_changes es index repository_fullname params now =
    (let params = set_params_defaults params;
         params = params(''etype'' \<mapsto> PTuple [PStr ''ChangeCommentedEvent'']) in
     first_event_on_changes es index repository_fullname params now)"

definition first_review_on_changes ::
  "es_client \<Rightarrow> string \<Rightarrow> string \<Rightarrow> params \<Rightarrow> int \<Rightarrow> py_error + first_event_result" where
  "first_review_on_changes es index repository_fullname params now =
    (let params = set_params_defaults params;
         params = params(''etype'' \<mapsto> PTuple [PStr ''ChangeReviewedEvent'']) in
     first_event_on_changes es index repository_fullname params now)"

section \<open>Notions used to state the properties\<close>

text \<open>
  The count \<^verbatim>\<open>changes_closed_ratios\<close> obtains for one event type: it calls
  \<^verbatim>\<open>count_events\<close> on its normalised parameters with \<^verbatim>\<open>etype\<close> set to the
  one-element tuple.
\<close>

definition events_count ::
  "es_client \<Rightarrow> string \<Rightarrow> string \<Rightarrow> params \<Rightarrow> string \<Rightarrow> py_error + pyval" where
  "events_count es index repository_fullname params etype =
    count_events es index repository_fullname
      ((set_params_defaults params)(''etype'' \<mapsto> PTuple [PStr etype]))"

text \<open>
  Per-author partner rankings: for each top author, in order, the buckets of the partner
  query. \<open>interactions\<close> lists every (author, partner bucket) pair; the directional
  count from \<open>a\<close> to \<open>b\<close> sums the counts of the buckets keyed \<open>b\<close> in the rankings
  of \<open>a\<close>, and \<open>interacts\<close> says that there is such a bucket.
\<close>

definition interactions :: "(string \<times> bucket list) list \<Rightarrow> (string \<times> bucket) list" where
  "interactions rankings = concat (map (\<lambda>(a, bs). map (Pair a) bs) rankings)"

definition directional :: "(string \<times> bucket list) list \<Rightarrow> string \<Rightarrow> string \<Rightarrow> int" where
  "directional rankings a b =
    sum_list (map (\<lambda>x. doc_count (snd x))
      (filter (\<lambda>(x, bk). x = a \<and> key bk = b) (interactions rankings)))"

definition interacts :: "(string \<times> bucket list) list \<Rightarrow> string \<Rightarrow> string \<Rightarrow> bool" where
  "interacts rankings a b =
    (filter (\<lambda>(x, bk). x = a \<and> key bk = b) (interactions rankings) \<noteq> [])"

text \<open>
  The two loops of \<^verbatim>\<open>peers_exchange_strength\<close> without the queries: one step per
  interaction.
\<close>

definition peers_step :: "string \<times> bucket \<Rightarrow> strengths \<Rightarrow> strengths" where
  "peers_step x ps =
    (if key (snd x) = fst x then ps
     else AList.map_entry (peers_id (fst x) (key (snd x))) (\<lambda>v. v + doc_count (snd x))
            (setdefault (peers_id (fst x) (key (snd x))) 0 ps))"

definition peers_accumulate :: "(string \<times> bucket list) list \<Rightarrow> strengths \<Rightarrow> strengths" where
  "peers_accumulate rankings ps = fold (\<lambda>(a, bs). peers_buckets_loop a bs) rankings ps"

definition contributes :: "string \<times> string \<Rightarrow> string \<times> bucket \<Rightarrow> bool" where
  "contributes k x = (key (snd x) \<noteq> fst x \<and> peers_id (fst x) (key (snd x)) = k)"

definition val :: "('k \<rightharpoonup> int) \<Rightarrow> 'k \<Rightarrow> int" where
  "val m k = (case m k of None \<Rightarrow> 0 | Some v \<Rightarrow> v)"

section \<open>Sample backends\<close>

text \<open>A backend whose every call raises.\<close>

definition failing_es :: es_client where
  "failing_es =
    \<lparr>es_search = (\<lambda>index body. Inl BackendError),
     es_count = (\<lambda>index body. Inl BackendError),
     es_scan = (\<lambda>index body. Inl BackendError)\<rparr>"

text \<open>
  A backend that counts 100 created, 40 merged and 10 abandoned events: it reads the event
  types of the \<^verbatim>\<open>terms\<close> predicate in the filter of the body.
\<close>

fun sub :: "string \<Rightarrow> pyval \<Rightarrow> pyval" where
  "sub k (PDict d) = (case map_of d k of None \<Rightarrow> PNone | Some v \<Rightarrow> v)"
| "sub k v = PNone"

definition body_etypes :: "pyval \<Rightarrow> pyval list" where
  "body_etypes body =
    (case sub ''filter'' (sub ''bool'' (sub ''query'' body)) of
       PList fs \<Rightarrow> filter (\<lambda>v. v \<noteq> PNone) (map (\<lambda>f. sub ''type'' (sub ''terms'' f)) fs)
     | _ \<Rightarrow> [])"

definition sample_count :: "pyval \<Rightarrow> int" where
  "sample_count body =
    (let ts = body_etypes body in
     if ts = [PTuple [PStr ''ChangeCreatedEvent'']] then 100
     else if ts = [PTuple [PStr ''ChangeMergedEvent'']] then 40
     else if ts = [PTuple [PStr ''ChangeAbandonedEvent'']] then 10
     else 0)"

definition sample_es :: es_client where
  "sample_es =
    \<lparr>es_search = (\<lambda>index body. Inl BackendError),
     es_count = (\<lambda>index body. Inr (sample_count body)),
     es_scan = (\<lambda>index body. Inl BackendError)\<rparr>"

text \<open>A backend that counts no event at all.\<close>

definition zero_count_es :: es_client where
  "zero_count_es =
    \<lparr>es_search = (\<lambda>index body. Inl BackendError),
     es_count = (\<lambda>index body. Inr 0),
     es_scan = (\<lambda>index body. Inl BackendError)\<rparr>"

text \<open>A backend whose term rankings are empty.\<close>

definition empty_es :: es_client where
  "empty_es =
    \<lparr>es_search = (\<lambda>index body. Inr [''agg1'' \<mapsto> AggBuckets []]),
     es_count = (\<lambda>index body. Inr 0),
     es_scan = (\<lambda>index body. Inr [])\<rparr>"

text \<open>A backend that answers every ranking with alice (5 events) and bob (3 events).\<close>

definition demo_buckets :: "bucket list" where
  "demo_buckets = [\<lparr>key = ''alice'', doc_count = 5\<rparr>, \<lparr>key = ''bob'', doc_count = 3\<rparr>]"

definition demo_es :: es_client where
  "demo_es =
    \<lparr>es_search = (\<lambda>index body. Inr [''agg1'' \<mapsto> AggBuckets demo_buckets]),
     es_count = (\<lambda>index body. Inr 0),
     es_scan = (\<lambda>index body. Inr [])\<rparr>"

text \<open>
  A backend whose scan finds one comment, made two days and ten seconds (172810 seconds)
  after its change was created.
\<close>

definition late_events :: "event list" where
  "late_events =
    [\<lparr>repository_fullname_and_number = ''org/repo/1'', created_at = 172810,
      on_created_at = 0, event_author = ''alice''\<rparr>]"

definition late_es :: es_client where
  "late_es =
    \<lparr>es_search = (\<lambda>index body. Inl BackendError),
     es_count = (\<lambda>index body. Inl BackendError),
     es_scan = (\<lambda>index body. Inr late_events)\<rparr>"

section \<open>Parameters, filters and query execution\<close>

lemma defaults_exclude_authors:
  "set_params_defaults params ''exclude_authors'' =
     Some (pget_default params ''exclude_authors'' (PList []))"
  by (simp add: set_params_defaults_def)

lemma defaults_size:
  "set_params_defaults params ''size'' = Some (pget_default params ''size'' (PInt 10))"
  by (simp add: set_params_defaults_def)

lemma defaults_interval:
  "set_params_defaults params ''interval'' = Some (pget_default params ''interval'' (PStr ''3h''))"
  by (simp add: set_params_defaults_def)

lemma bool_query_total:
  assumes "params ''exclude_authors'' = Some v"
  shows "\<exists>query. bool_query repo params exclude_change = Inr query"
  using assms by (simp add: bool_query_def generate_must_not_def pindex_def and_then_def Let_def)

lemma bool_query_defaults:
  "\<exists>query. bool_query repo (set_params_defaults params) exclude_change = Inr query"
  using bool_query_total [of "set_params_defaults params" _ repo exclude_change]
    defaults_exclude_authors
  by blast

lemma run_query_failing: "run_query failing_es index body = EmptyList"
  by (simp add: run_query_def failing_es_def)

section \<open>Filter builder: event type, state and range bounds\<close>

text \<open>
  Whenever \<^verbatim>\<open>etype\<close> is a string, the \<^verbatim>\<open>terms\<close> predicate of the filter is on the
  list of its characters, and on nothing else.
\<close>

lemma generate_filter_str_etype_chars:
  assumes "params ''etype'' = Some (PStr s)" and "s \<noteq> []"
  shows "PDict [(''terms'', PDict [(''type'', list_of_str s)])]
    \<in> set (generate_filter repo params)"
  using assms by (simp add: generate_filter_def Let_def pget_def list_of_str_def)

lemma generate_filter_str_etype_only:
  assumes "params ''etype'' = Some (PStr s)"
    and "PDict [(''terms'', PDict [(''type'', v)])] \<in> set (generate_filter repo params)"
  shows "v = list_of_str s"
  using assms
  by (auto simp add: generate_filter_def Let_def pget_def list_of_str_def split: if_splits)

text \<open>
  Claim C4. With \<^verbatim>\<open>etype\<close> the single string \<^verbatim>\<open>"ChangeReviewedEvent"\<close>,
  \<^verbatim>\<open>list(etype)\<close> splits the string: the \<^verbatim>\<open>terms\<close> predicate of the filter lists its
  nineteen characters, and the predicate on the one-element list holding the event type is
  not in the filter.
\<close>

theorem generate_filter_str_etype:
  "generate_filter repo [''etype'' \<mapsto> PStr ''ChangeReviewedEvent''] =
     [PDict [(''regexp'', PDict [(''repository_fullname'', PDict [(''value'', PStr repo)])])],
      PDict [(''range'', PDict [(''created_at'', PDict [(''format'', PStr ''epoch_millis'')])])],
      PDict [(''range'',
        PDict [(''on_created_at'', PDict [(''format'', PStr ''epoch_millis'')])])],
      PDict [(''terms'', PDict [(''type'', PList
        [PStr ''C'', PStr ''h'', PStr ''a'', PStr ''n'', PStr ''g'', PStr ''e'', PStr ''R'',
         PStr ''e'', PStr ''v'', PStr ''i'', PStr ''e'', PStr ''w'', PStr ''e'', PStr ''d'',
         PStr ''E'', PStr ''v'', PStr ''e'', PStr ''n'', PStr ''t''])])]] \<and>
   PDict [(''terms'', PDict [(''type'', PList [PStr ''ChangeReviewedEvent''])])]
     \<notin> set (generate_filter repo [''etype'' \<mapsto> PStr ''ChangeReviewedEvent''])"
  by (simp add: generate_filter_def pget_def list_of_str_def Let_def)

text \<open>
  Claim C5. Normalisation does not keep \<^verbatim>\<open>state\<close>: the normalised parameters, and so
  the result of \<^verbatim>\<open>count_events\<close>, are the same with and without it, and the filter
  built from the normalised parameters \<^verbatim>\<open>{'state': 'MERGED'}\<close> holds the repository and
  the two range predicates only.
\<close>

theorem count_events_drops_state:
  "set_params_defaults (params(''state'' \<mapsto> v)) = set_params_defaults params \<and>
   count_events es index repo (params(''state'' \<mapsto> v)) = count_events es index repo params \<and>
   generate_filter repo (set_params_defaults [''state'' \<mapsto> PStr ''MERGED'']) =
     [PDict [(''regexp'', PDict [(''repository_fullname'', PDict [(''value'', PStr repo)])])],
      PDict [(''range'', PDict [(''created_at'', PDict [(''format'', PStr ''epoch_millis'')])])],
      PDict [(''range'',
        PDict [(''on_created_at'', PDict [(''format'', PStr ''epoch_millis'')])])]]"
proof -
  have same: "set_params_defaults (params(''state'' \<mapsto> v)) = set_params_defaults params"
    by (simp add: set_params_defaults_def pget_def pget_default_def)
  have count: "count_events es index repo (params(''state'' \<mapsto> v)) =
      count_events es index repo params"
    unfolding count_events_def same ..
  have built: "generate_filter repo (set_params_defaults [''state'' \<mapsto> PStr ''MERGED'']) =
     [PDict [(''regexp'', PDict [(''repository_fullname'', PDict [(''value'', PStr repo)])])],
      PDict [(''range'', PDict [(''created_at'', PDict [(''format'', PStr ''epoch_millis'')])])],
      PDict [(''range'',
        PDict [(''on_created_at'', PDict [(''format'', PStr ''epoch_millis'')])])]]"
    by (simp add: generate_filter_def set_params_defaults_def pget_def pget_default_def Let_def)
  from same count built show ?thesis by (intro conjI)
qed

text \<open>
  The range on \<^verbatim>\<open>created_at\<close> carries exactly the bounds supplied, and so does the
  range on \<^verbatim>\<open>on_created_at\<close> when \<^verbatim>\<open>ec_same_date\<close> is not set. When it is set,
  the range on \<^verbatim>\<open>on_created_at\<close> always carries both keys, with the values of
  \<^verbatim>\<open>gte\<close> and \<^verbatim>\<open>lte\<close>, \<^verbatim>\<open>None\<close> included.
\<close>

lemma created_at_range_bounds:
  assumes "PDict [(''range'', PDict [(''created_at'', PDict r)])]
      \<in> set (generate_filter repo params)"
  shows "map_of r ''gte'' =
      (if truthy (pget params ''gte'') then Some (pget params ''gte'') else None) \<and>
    map_of r ''lte'' =
      (if truthy (pget params ''lte'') then Some (pget params ''lte'') else None)"
  using assms by (auto simp add: generate_filter_def Let_def split: if_splits)

lemma on_created_at_range_bounds:
  assumes "PDict [(''range'', PDict [(''on_created_at'', PDict r)])]
      \<in> set (generate_filter repo params)"
    and "\<not> truthy (pget params ''ec_same_date'')"
  shows "map_of r ''gte'' =
      (if truthy (pget params ''on_cc_gte'') then Some (pget params ''on_cc_gte'') else None) \<and>
    map_of r ''lte'' =
      (if truthy (pget params ''on_cc_lte'') then Some (pget params ''on_cc_lte'') else None)"
  using assms by (auto simp add: generate_filter_def Let_def split: if_splits)

lemma on_created_at_range_same_date:
  assumes "PDict [(''range'', PDict [(''on_created_at'', PDict r)])]
      \<in> set (generate_filter repo params)"
    and "truthy (pget params ''ec_same_date'')"
  shows "map_of r ''gte'' = Some (pget params ''gte'') \<and>
    map_of r ''lte'' = Some (pget params ''lte'')"
  using assms by (auto simp add: generate_filter_def Let_def split: if_splits)

text \<open>
  Claim C6. With \<^verbatim>\<open>ec_same_date\<close> true and neither \<^verbatim>\<open>gte\<close> nor \<^verbatim>\<open>lte\<close>
  supplied, the range predicate on \<^verbatim>\<open>on_created_at\<close> carries both bounds, each with
  the value \<^verbatim>\<open>None\<close>; the range predicate on \<^verbatim>\<open>created_at\<close> carries none.
\<close>

theorem generate_filter_same_date_bounds:
  "generate_filter repo [''ec_same_date'' \<mapsto> PBool True] =
     [PDict [(''regexp'', PDict [(''repository_fullname'', PDict [(''value'', PStr repo)])])],
      PDict [(''range'', PDict [(''created_at'', PDict [(''format'', PStr ''epoch_millis'')])])],
      PDict [(''range'', PDict [(''on_created_at'',
        PDict [(''format'', PStr ''epoch_millis''), (''gte'', PNone), (''lte'', PNone)])])]]"
  by (simp add: generate_filter_def pget_def Let_def)

section \<open>Backend failures\<close>

text \<open>
  Claim C1. When the search of the backend raises, \<^verbatim>\<open>run_query\<close> returns the empty
  list, and \<^verbatim>\<open>count_authors\<close> and \<^verbatim>\<open>events_histo\<close> then raise \<^verbatim>\<open>TypeError\<close>
  on \<^verbatim>\<open>data['aggregations']\<close>, whatever the parameters.
\<close>

theorem count_authors_raises_on_backend_failure:
  "count_authors failing_es index repo params = Inl TypeError \<and>
   events_histo failing_es index repo params = Inl TypeError"
proof -
  obtain query where q: "bool_query repo (set_params_defaults params) True = Inr query"
    using bool_query_defaults by blast
  have authors: "count_authors failing_es index repo params = Inl TypeError"
    by (simp add: count_authors_def Let_def q and_then_def run_query_failing)
  have histo: "events_histo failing_es index repo params = Inl TypeError"
    by (simp add: events_histo_def Let_def q and_then_def run_query_failing pindex_def
        defaults_interval)
  from authors histo show ?thesis ..
qed

text \<open>The same holds for every backend whose search raises.\<close>

lemma count_authors_search_raises:
  assumes "\<And>body. \<exists>e. es_search es index body = Inl e"
  shows "count_authors es index repo params = Inl TypeError"
proof -
  obtain query where q: "bool_query repo (set_params_defaults params) True = Inr query"
    using bool_query_defaults by blast
  have "run_query es index body = EmptyList" for body
    using assms [of body] by (auto simp: run_query_def)
  then show ?thesis
    by (simp add: count_authors_def Let_def q and_then_def)
qed

text \<open>\<^verbatim>\<open>count_events\<close> on the same backend returns the empty dictionary.\<close>

lemma count_events_failing: "count_events failing_es index repo params = Inr (PDict [])"
proof -
  obtain query where q: "bool_query repo (set_params_defaults params) True = Inr query"
    using bool_query_defaults by blast
  show ?thesis
    by (simp add: count_events_def Let_def q and_then_def failing_es_def)
qed

section \<open>Top-N rankings without buckets\<close>

lemma events_top_buckets:
  assumes size: "params ''size'' = Some sz"
    and excl: "params ''exclude_authors'' = Some excl"
    and search: "\<And>body. \<exists>res. es_search es index body = Inr res \<and>
        res ''agg1'' = Some (AggBuckets bs)"
    and avg: "bs \<noteq> [] \<Longrightarrow> mean (map doc_count bs) = Inr avg"
    and med: "bs \<noteq> [] \<Longrightarrow> median (sort (map doc_count bs)) = Inr med"
    and zero: "bs = [] \<Longrightarrow> avg = 0 \<and> med = 0"
  shows "events_top es index repo field params =
     Inr \<lparr>buckets = bs, count_avg = avg, count_median = med\<rparr>"
proof -
  obtain query where q: "bool_query repo params True = Inr query"
    using bool_query_total [of params excl repo True] excl by blast
  let ?body = "PDict
            [(''aggs'', PDict [(''agg1'', PDict [(''terms'',
                PDict [(''field'', PStr field), (''size'', sz),
                       (''order'', PDict [(''_count'', PStr ''desc'')])])])]),
             (''size'', PInt 0),
             (''query'', query)]"
  obtain res where r: "es_search es index ?body = Inr res" "res ''agg1'' = Some (AggBuckets bs)"
    using search by blast
  have run: "run_query es index ?body = Response res"
    by (simp add: run_query_def r)
  have agg: "agg_of res ''agg1'' = Inr (AggBuckets bs)"
    by (simp add: agg_of_def r)
  show ?thesis
  proof (cases "bs = []")
    case True
    then show ?thesis
      unfolding events_top_def using zero
      by (simp add: pindex_def size q and_then_def Let_def run agg)
  next
    case False
    then show ?thesis
      unfolding events_top_def using avg med
      by (simp add: pindex_def size q and_then_def Let_def run agg)
  qed
qed

lemma events_top_no_buckets:
  assumes "\<And>body. \<exists>res. es_search es index body = Inr res \<and> res ''agg1'' = Some (AggBuckets [])"
    and "params ''size'' = Some sz"
    and "params ''exclude_authors'' = Some excl"
  shows "events_top es index repo field params =
           Inr \<lparr>buckets = [], count_avg = 0, count_median = 0\<rparr>"
  by (rule events_top_buckets [OF assms(2) assms(3) assms(1)]) simp_all

lemma events_top_no_buckets_etype:
  assumes "\<And>body. \<exists>res. es_search es index body = Inr res \<and> res ''agg1'' = Some (AggBuckets [])"
  shows "events_top es index repo field ((set_params_defaults params)(''etype'' \<mapsto> v)) =
           Inr \<lparr>buckets = [], count_avg = 0, count_median = 0\<rparr>"
  by (rule events_top_no_buckets [OF assms]) (simp_all add: defaults_size defaults_exclude_authors)

text \<open>
  Claim C10. When the term ranking of the backend has no bucket, \<^verbatim>\<open>_events_top\<close> (on
  parameters that hold \<^verbatim>\<open>size\<close> and \<^verbatim>\<open>exclude_authors\<close>, as normalised ones do) and
  the six rankings built on it return no bucket, \<^verbatim>\<open>count_avg = 0\<close> and
  \<^verbatim>\<open>count_median = 0\<close>; none raises on the mean or median of the empty series.
\<close>

theorem events_top_zero_buckets:
  assumes search: "\<And>body. \<exists>res. es_search es index body = Inr res \<and>
        res ''agg1'' = Some (AggBuckets [])"
    and size: "params ''size'' = Some sz"
    and excl: "params ''exclude_authors'' = Some excl"
  shows "events_top es index repo field params =
           Inr \<lparr>buckets = [], count_avg = 0, count_median = 0\<rparr> \<and>
         events_top_authors es index repo p =
           Inr \<lparr>buckets = [], count_avg = 0, count_median = 0\<rparr> \<and>
         changes_top_approval es index repo p =
           Inr \<lparr>buckets = [], count_avg = 0, count_median = 0\<rparr> \<and>
         changes_top_commented es index repo p =
           Inr \<lparr>buckets = [], count_avg = 0, count_median = 0\<rparr> \<and>
         changes_top_reviewed es index repo p =
           Inr \<lparr>buckets = [], count_avg = 0, count_median = 0\<rparr> \<and>
         authors_top_reviewed es index repo p =
           Inr \<lparr>buckets = [], count_avg = 0, count_median = 0\<rparr> \<and>
         authors_top_commented es index repo p =
           Inr \<lparr>buckets = [], count_avg = 0, count_median = 0\<rparr>"
proof -
  have top: "events_top es index repo field params =
      Inr \<lparr>buckets = [], count_avg = 0, count_median = 0\<rparr>"
    using search size excl by (rule events_top_no_buckets)
  have authors: "events_top_authors es index repo p =
      Inr \<lparr>buckets = [], count_avg = 0, count_median = 0\<rparr>"
    unfolding events_top_authors_def Let_def
    using search defaults_size defaults_exclude_authors by (rule events_top_no_buckets)
  have approval: "changes_top_approval es index repo p =
      Inr \<lparr>buckets = [], count_avg = 0, count_median = 0\<rparr>"
    unfolding changes_top_approval_def Let_def
    using search by (rule events_top_no_buckets_etype)
  have commented: "changes_top_commented es index repo p =
      Inr \<lparr>buckets = [], count_avg = 0, count_median = 0\<rparr>"
    unfolding changes_top_commented_def Let_def
    using search by (rule events_top_no_buckets_etype)
  have reviewed: "changes_top_reviewed es index repo p =
      Inr \<lparr>buckets = [], count_avg = 0, count_median = 0\<rparr>"
    unfolding changes_top_reviewed_def Let_def
    using search by (rule events_top_no_buckets_etype)
  have a_reviewed: "authors_top_reviewed es index repo p =
      Inr \<lparr>buckets = [], count_avg = 0, count_median = 0\<rparr>"
    unfolding authors_top_reviewed_def Let_def
    using search by (rule events_top_no_buckets_etype)
  have a_commented: "authors_top_commented es index repo p =
      Inr \<lparr>buckets = [], count_avg = 0, count_median = 0\<rparr>"
    unfolding authors_top_commented_def Let_def
    using search by (rule events_top_no_buckets_etype)
  from top authors approval commented reviewed a_reviewed a_commented
  show ?thesis by (intro conjI)
qed

theorem events_top_zero_buckets_witness:
  "events_top empty_es ''monocle'' ''org/repo'' ''author'' (set_params_defaults Map.empty) =
     Inr \<lparr>buckets = [], count_avg = 0, count_median = 0\<rparr> \<and>
   events_top_authors empty_es ''monocle'' ''org/repo'' Map.empty =
     Inr \<lparr>buckets = [], count_avg = 0, count_median = 0\<rparr> \<and>
   changes_top_approval empty_es ''monocle'' ''org/repo'' Map.empty =
     Inr \<lparr>buckets = [], count_avg = 0, count_median = 0\<rparr> \<and>
   changes_top_commented empty_es ''monocle'' ''org/repo'' Map.empty =
     Inr \<lparr>buckets = [], count_avg = 0, count_median = 0\<rparr> \<and>
   changes_top_reviewed empty_es ''monocle'' ''org/repo'' Map.empty =
     Inr \<lparr>buckets = [], count_avg = 0, count_median = 0\<rparr> \<and>
   authors_top_reviewed empty_es ''monocle'' ''org/repo'' Map.empty =
     Inr \<lparr>buckets = [], count_avg = 0, count_median = 0\<rparr> \<and>
   authors_top_commented empty_es ''monocle'' ''org/repo'' Map.empty =
     Inr \<lparr>buckets = [], count_avg = 0, count_median = 0\<rparr>"
proof -
  have search: "\<exists>res. es_search empty_es ''monocle'' body = Inr res \<and>
      res ''agg1'' = Some (AggBuckets [])" for body
    by (simp add: empty_es_def)
  show ?thesis
    using search defaults_size defaults_exclude_authors by (rule events_top_zero_buckets)
qed

section \<open>Peer exchange strength: edges and weights\<close>

lemma peers_buckets_loop_fold:
  "peers_buckets_loop a bs ps = fold peers_step (map (Pair a) bs) ps"
  by (induction bs arbitrary: ps) (simp_all add: peers_step_def Let_def)

lemma peers_accumulate_fold:
  "peers_accumulate rankings ps = fold peers_step (interactions rankings) ps"
  unfolding peers_accumulate_def interactions_def
  by (induction rankings arbitrary: ps) (auto simp: peers_buckets_loop_fold)

lemma map_of_setdefault:
  "map_of (setdefault k d ps) k' =
    (if k' = k \<and> map_of ps k = None then Some d else map_of ps k')"
  by (auto simp: setdefault_def map_add_def split: option.splits)

lemma distinct_setdefault:
  "distinct (map fst ps) \<Longrightarrow> distinct (map fst (setdefault k d ps))"
  by (auto simp: setdefault_def map_of_eq_None_iff split: option.splits)

lemma keys_setdefault: "fst ` set (setdefault k d ps) = insert k (fst ` set ps)"
  by (auto simp: setdefault_def dom_map_of_conv_image_fst [symmetric] split: option.splits)

lemma map_of_peers_step:
  "map_of (peers_step x ps) k =
    (if key (snd x) \<noteq> fst x \<and> peers_id (fst x) (key (snd x)) = k
     then Some (val (map_of ps) k + doc_count (snd x)) else map_of ps k)"
  by (auto simp: peers_step_def AList.map_of_map_entry map_of_setdefault val_def split: option.splits)

lemma distinct_peers_step:
  "distinct (map fst ps) \<Longrightarrow> distinct (map fst (peers_step x ps))"
  by (simp add: peers_step_def AList.distinct_map_entry distinct_setdefault)

lemma keys_peers_step:
  "fst ` set (peers_step x ps) =
    (if key (snd x) = fst x then fst ` set ps
     else insert (peers_id (fst x) (key (snd x))) (fst ` set ps))"
  by (simp add: peers_step_def AList.dom_map_entry keys_setdefault)

lemma map_of_fold_peers_step:
  "map_of (fold peers_step xs ps) k =
    (if filter (contributes k) xs = [] then map_of ps k
     else Some (val (map_of ps) k + sum_list (map (\<lambda>x. doc_count (snd x)) (filter (contributes k) xs))))"
proof (induction xs arbitrary: ps)
  case Nil
  then show ?case by simp
next
  case (Cons x xs)
  show ?case
  proof (cases "contributes k x")
    case True
    then have "map_of (peers_step x ps) k = Some (val (map_of ps) k + doc_count (snd x))"
      by (simp add: map_of_peers_step contributes_def)
    then show ?thesis using True by (simp add: Cons.IH val_def)
  next
    case False
    then have "map_of (peers_step x ps) k = map_of ps k"
      by (auto simp add: map_of_peers_step contributes_def)
    then show ?thesis using False by (simp add: Cons.IH val_def)
  qed
qed

lemma distinct_fold_peers_step:
  "distinct (map fst ps) \<Longrightarrow> distinct (map fst (fold peers_step xs ps))"
  by (induction xs arbitrary: ps) (simp_all add: distinct_peers_step)

lemma peers_id_less: "a \<noteq> b \<Longrightarrow> fst (peers_id a b) < snd (peers_id a b)"
  by (auto simp: peers_id_def)

lemma keys_fold_peers_step:
  "\<forall>k \<in> fst ` set ps. fst k < snd k \<Longrightarrow> \<forall>k \<in> fst ` set (fold peers_step xs ps). fst k < snd k"
proof (induction xs arbitrary: ps)
  case Nil
  then show ?case by simp
next
  case (Cons x xs)
  have "\<forall>k \<in> fst ` set (peers_step x ps). fst k < snd k"
    using Cons.prems by (auto simp: keys_peers_step peers_id_less simp del: fst_conv snd_conv split: if_splits)
  then show ?case using Cons.IH by simp
qed

lemma contributes_peers_id:
  "a \<noteq> b \<Longrightarrow> contributes (peers_id a b) x \<longleftrightarrow>
     (fst x = a \<and> key (snd x) = b) \<or> (fst x = b \<and> key (snd x) = a)"
  by (auto simp: contributes_def peers_id_def split: if_splits)

lemma sum_list_filter_disj:
  "(\<And>x. \<not> (P x \<and> Q x)) \<Longrightarrow>
   sum_list (map f (filter (\<lambda>x. P x \<or> Q x) xs)) =
   sum_list (map f (filter P xs)) + (sum_list (map f (filter Q xs)) :: int)"
  by (induction xs) auto

lemma filter_disj_empty:
  "filter (\<lambda>x. P x \<or> Q x) xs = [] \<longleftrightarrow> filter P xs = [] \<and> filter Q xs = []"
  by (induction xs) auto

lemma sorted_desc_sorted: "sorted (rev (map snd (sorted_desc xs)))"
  by (simp add: sorted_desc_def rev_map [symmetric])

lemma set_sorted_desc: "set (sorted_desc xs) = set xs"
  by (simp add: sorted_desc_def)

lemma distinct_sorted_desc: "distinct (map fst (sorted_desc xs)) = distinct (map fst xs)"
  by (simp add: sorted_desc_def distinct_map)


lemma map_of_sorted_desc:
  assumes "distinct (map fst xs)"
  shows "map_of (sorted_desc xs) = map_of xs"
proof -
  have "distinct (map fst (sorted_desc xs))"
    using assms by (simp add: distinct_sorted_desc)
  then show ?thesis
    using assms by (simp add: map_of_inject_set set_sorted_desc)
qed

lemma peers_authors_loop_accumulate:
  assumes "\<forall>a \<in> set authors.
      events_top es index repo ''on_author'' (p(''author'' \<mapsto> PStr a)) = Inr (partners a)"
    and "\<And>v. p'(''author'' := v) = p(''author'' := v)"
  shows "peers_authors_loop es index repo p' authors ps =
    Inr (peers_accumulate (map (\<lambda>a. (a, buckets (partners a))) authors) ps)"
  using assms
proof (induction authors arbitrary: p' ps)
  case Nil
  then show ?case by (simp add: peers_accumulate_def)
next
  case (Cons a authors)
  have eq: "p'(''author'' \<mapsto> PStr a) = p(''author'' \<mapsto> PStr a)"
    by (rule Cons.prems(2))
  have "a \<in> set (a # authors)"
    by simp
  then have "events_top es index repo ''on_author'' (p(''author'' \<mapsto> PStr a)) = Inr (partners a)"
    by (rule Cons.prems(1) [THEN bspec])
  then have top: "events_top es index repo ''on_author'' (p'(''author'' \<mapsto> PStr a)) =
      Inr (partners a)"
    unfolding eq .
  have rest: "\<forall>a \<in> set authors.
      events_top es index repo ''on_author'' (p(''author'' \<mapsto> PStr a)) = Inr (partners a)"
    using Cons.prems(1) by (meson list.set_intros(2))
  have upd: "(p'(''author'' \<mapsto> PStr a))(''author'' := v) = p(''author'' := v)" for v
    by (simp only: fun_upd_upd Cons.prems(2))
  have "peers_authors_loop es index repo (p'(''author'' \<mapsto> PStr a)) authors
          (peers_buckets_loop a (buckets (partners a)) ps) =
        Inr (peers_accumulate (map (\<lambda>a. (a, buckets (partners a))) authors)
          (peers_buckets_loop a (buckets (partners a)) ps))"
    using rest upd by (rule Cons.IH)
  then show ?case
    by (simp add: top and_then_def peers_accumulate_def)
qed

lemma map_of_peers_accumulate:
  assumes "a \<noteq> b"
  shows "map_of (peers_accumulate rankings []) (peers_id a b) =
    (if interacts rankings a b \<or> interacts rankings b a
     then Some (directional rankings a b + directional rankings b a) else None)"
proof -
  let ?P = "\<lambda>x :: string \<times> bucket. fst x = a \<and> key (snd x) = b"
  let ?Q = "\<lambda>x :: string \<times> bucket. fst x = b \<and> key (snd x) = a"
  have c: "contributes (peers_id a b) = (\<lambda>x. ?P x \<or> ?Q x)"
    using assms by (simp add: fun_eq_iff contributes_peers_id)
  have s: "(\<lambda>(x, bk). x = u \<and> key bk = v) = (\<lambda>x :: string \<times> bucket. fst x = u \<and> key (snd x) = v)" for u v
    by (simp add: fun_eq_iff)
  have disj: "\<And>x. \<not> (?P x \<and> ?Q x)"
    using assms by auto
  show ?thesis
    unfolding peers_accumulate_fold map_of_fold_peers_step c
    by (simp add: filter_disj_empty sum_list_filter_disj [of ?P ?Q, OF disj]
        interacts_def directional_def s val_def)
qed

text \<open>
  Claim C8. Let the ranking of the top authors and, for each of them, the ranking of
  their partners be what \<^verbatim>\<open>_events_top\<close> returns. Then \<^verbatim>\<open>peers_exchange_strength\<close>
  returns a list of edges in which no pair has twice the same name, every key is a pair in
  ascending order and occurs once, the weight under the sorted pair of two different names
  \<open>a\<close> and \<open>b\<close> is the sum of the directional counts from \<open>a\<close> to \<open>b\<close> and from
  \<open>b\<close> to \<open>a\<close> (and the pair is absent when neither ranks the other), and the weights
  are in descending order.
\<close>

theorem peers_exchange_strength_edges:
  assumes p: "p = (set_params_defaults params)(''etype'' \<mapsto>
        PTuple [PStr ''ChangeReviewedEvent'', PStr ''ChangeCommentedEvent''])"
    and top: "events_top es index repo ''author'' p = Inr t"
    and partners: "\<forall>a \<in> set (map key (buckets t)).
        events_top es index repo ''on_author'' (p(''author'' \<mapsto> PStr a)) = Inr (partners a)"
    and rankings: "rankings = map (\<lambda>a. (a, buckets (partners a))) (map key (buckets t))"
  shows "\<exists>edges. peers_exchange_strength es index repo params = Inr edges \<and>
      (\<forall>a w. ((a, a), w) \<notin> set edges) \<and>
      (\<forall>k \<in> fst ` set edges. fst k < snd k) \<and>
      distinct (map fst edges) \<and>
      (\<forall>a b. a \<noteq> b \<longrightarrow> map_of edges (peers_id a b) =
         (if interacts rankings a b \<or> interacts rankings b a
          then Some (directional rankings a b + directional rankings b a) else None)) \<and>
      sorted (rev (map snd edges))"
proof -
  let ?acc = "peers_accumulate rankings []"
  have loop: "peers_authors_loop es index repo p (map key (buckets t)) [] = Inr ?acc"
    unfolding rankings using partners by (intro peers_authors_loop_accumulate) simp_all
  have run: "peers_exchange_strength es index repo params = Inr (sorted_desc ?acc)"
    by (simp add: peers_exchange_strength_def Let_def p [symmetric] top loop and_then_def)
  have dist: "distinct (map fst ?acc)"
    by (simp add: peers_accumulate_fold distinct_fold_peers_step)
  have keys: "\<forall>k \<in> fst ` set ?acc. fst k < snd k"
    unfolding peers_accumulate_fold by (rule keys_fold_peers_step) simp
  have noself: "((a, a), w) \<notin> set (sorted_desc ?acc)" for a w
  proof
    assume "((a, a), w) \<in> set (sorted_desc ?acc)"
    then have "(a, a) \<in> fst ` set ?acc"
      by (metis fst_conv image_eqI set_sorted_desc)
    with keys show False by auto
  qed
  show ?thesis
    using run noself keys dist
    by (simp add: set_sorted_desc distinct_sorted_desc map_of_sorted_desc
        map_of_peers_accumulate sorted_desc_sorted)
qed


lemma events_top_demo:
  assumes "params ''size'' = Some sz" and "params ''exclude_authors'' = Some excl"
  shows "events_top demo_es index repo field params =
     Inr \<lparr>buckets = demo_buckets, count_avg = 4, count_median = 4\<rparr>"
  by (rule events_top_buckets [OF assms])
     (simp_all add: demo_es_def demo_buckets_def mean_def median_def Let_def)

theorem peers_exchange_strength_edges_witness:
  "\<exists>edges. peers_exchange_strength demo_es ''monocle'' ''org/repo'' Map.empty = Inr edges \<and>
     map_of edges (''alice'', ''bob'') = Some 8 \<and>
     (\<forall>a w. ((a, a), w) \<notin> set edges) \<and>
     distinct (map fst edges) \<and>
     sorted (rev (map snd edges))"
proof -
  let ?p = "(set_params_defaults Map.empty)(''etype'' \<mapsto>
        PTuple [PStr ''ChangeReviewedEvent'', PStr ''ChangeCommentedEvent''])"
  let ?t = "\<lparr>buckets = demo_buckets, count_avg = 4, count_median = 4\<rparr>"
  let ?rankings = "map (\<lambda>a. (a, buckets ?t)) (map key (buckets ?t))"
  have top: "events_top demo_es ''monocle'' ''org/repo'' ''author'' ?p = Inr ?t"
    by (rule events_top_demo) (simp_all add: defaults_size defaults_exclude_authors)
  have partners: "\<forall>a \<in> set (map key (buckets ?t)).
      events_top demo_es ''monocle'' ''org/repo'' ''on_author'' (?p(''author'' \<mapsto> PStr a)) = Inr ?t"
    by (intro ballI events_top_demo) (simp_all add: defaults_size defaults_exclude_authors)
  have pid: "peers_id ''alice'' ''bob'' = (''alice'', ''bob'')"
    by (simp add: peers_id_def)
  have w: "(if interacts ?rankings ''alice'' ''bob'' \<or> interacts ?rankings ''bob'' ''alice''
          then Some (directional ?rankings ''alice'' ''bob'' + directional ?rankings ''bob'' ''alice'')
          else None) = Some 8"
    by (simp add: interacts_def directional_def interactions_def demo_buckets_def)
  from peers_exchange_strength_edges [OF refl top partners refl]
  obtain edges where e: "peers_exchange_strength demo_es ''monocle'' ''org/repo'' Map.empty = Inr edges"
      "\<forall>a w. ((a, a), w) \<notin> set edges" "distinct (map fst edges)"
      "\<forall>a b. a \<noteq> b \<longrightarrow> map_of edges (peers_id a b) =
         (if interacts ?rankings a b \<or> interacts ?rankings b a
          then Some (directional ?rankings a b + directional ?rankings b a) else None)"
      "sorted (rev (map snd edges))"
    by blast
  have "map_of edges (peers_id ''alice'' ''bob'') = Some 8"
    using e(4) w by simp
  then show ?thesis using e pid by auto
qed

section \<open>Merge duration ranges\<close>

text \<open>
  Every whole number of seconds falls in exactly one of the four ranges, but for 86400,
  604800 and 2678400, which fall in none: each range starts one second after the
  excluded end of the range before it.
\<close>

lemma duration_ranges_count:
  "length (filter (\<lambda>r. in_range r d) duration_ranges) =
     (if d = 86400 \<or> d = 604800 \<or> d = 2678400 then 0 else 1)"
  by (simp add: duration_ranges_def)

text \<open>
  Claim C7. Under the range semantics of the backend (\<^verbatim>\<open>from\<close> included, \<^verbatim>\<open>to\<close>
  excluded), a duration of 86400 seconds is in none of the four ranges that
  \<^verbatim>\<open>change_merged_count_by_duration\<close> issues, so the ranges do not cover it; a duration
  of 86401 seconds is in the second range only.
\<close>

theorem duration_ranges_one_day:
  "map (\<lambda>r. in_range r 86400) duration_ranges = [False, False, False, False] \<and>
   map (\<lambda>r. in_range r 86401) duration_ranges = [False, True, False, False]"
  by (simp add: duration_ranges_def)

section \<open>Closed-change ratios\<close>

lemma changes_closed_ratios_counts:
  assumes "events_count es index repo params ''ChangeCreatedEvent'' = Inr created"
    and "events_count es index repo params ''ChangeMergedEvent'' = Inr merged"
    and "events_count es index repo params ''ChangeAbandonedEvent'' = Inr abandoned"
  shows "changes_closed_ratios es index repo params =
    and_then (py_truediv merged created) (\<lambda>q.
    and_then (py_truediv abandoned merged) (\<lambda>r.
      Inr [(''merged/created_ratio'', PFloat (py_round1 (q * 100))),
           (''abandoned/created_ratio'', PFloat (py_round1 (r * 100)))]))"
  using assms
  by (simp add: changes_closed_ratios_def events_count_def Let_def and_then_def dict_index_def
      split: sum.splits)

lemma events_count_sample:
  "events_count sample_es index repo Map.empty ''ChangeCreatedEvent'' = Inr (PInt 100)"
  "events_count sample_es index repo Map.empty ''ChangeMergedEvent'' = Inr (PInt 40)"
  "events_count sample_es index repo Map.empty ''ChangeAbandonedEvent'' = Inr (PInt 10)"
  by (simp_all add: events_count_def count_events_def bool_query_def generate_filter_def
      generate_must_not_def set_params_defaults_def pget_def pget_default_def pindex_def
      and_then_def Let_def sample_es_def sample_count_def body_etypes_def)

lemma py_round1_40: "py_round1 40 = 40"
  by (simp add: py_round1_def round_half_even_def Let_def)

lemma py_round1_25: "py_round1 25 = 25"
  by (simp add: py_round1_def round_half_even_def Let_def)

text \<open>
  Claim C2. With 100 created, 40 merged and 10 abandoned events,
  \<^verbatim>\<open>changes_closed_ratios\<close> returns \<^verbatim>\<open>merged/created_ratio = 40.0\<close> and
  \<^verbatim>\<open>abandoned/created_ratio = 25.0\<close>: the second ratio is abandoned over merged, times
  100.
\<close>

theorem changes_closed_ratios_sample:
  "changes_closed_ratios sample_es index repo Map.empty =
     Inr [(''merged/created_ratio'', PFloat 40), (''abandoned/created_ratio'', PFloat 25)]"
  by (simp add: changes_closed_ratios_counts [OF events_count_sample]
      py_truediv_def and_then_def py_round1_40 py_round1_25)

text \<open>
  Claim C3. When the backend counts no created event, or no merged event,
  \<^verbatim>\<open>changes_closed_ratios\<close> raises \<^verbatim>\<open>ZeroDivisionError\<close> and returns nothing.
\<close>

theorem changes_closed_ratios_zero_division:
  assumes "events_count es index repo params ''ChangeCreatedEvent'' = Inr (PInt created)"
    and "events_count es index repo params ''ChangeMergedEvent'' = Inr (PInt merged)"
    and "events_count es index repo params ''ChangeAbandonedEvent'' = Inr (PInt abandoned)"
    and "created = 0 \<or> merged = 0"
  shows "changes_closed_ratios es index repo params = Inl ZeroDivisionError"
  using assms(4)
  by (auto simp add: changes_closed_ratios_counts [OF assms(1-3)] py_truediv_def and_then_def)

lemma count_events_zero: "count_events zero_count_es index repo params = Inr (PInt 0)"
proof -
  obtain query where "bool_query repo (set_params_defaults params) True = Inr query"
    using bool_query_defaults by blast
  then show ?thesis
    by (simp add: count_events_def Let_def and_then_def zero_count_es_def)
qed

theorem changes_closed_ratios_zero_division_witness:
  "changes_closed_ratios zero_count_es ''monocle'' ''org/repo'' Map.empty = Inl ZeroDivisionError"
  by (rule changes_closed_ratios_zero_division [where created = 0 and merged = 0 and abandoned = 0])
     (simp_all add: events_count_def count_events_zero)

section \<open>First event on changes\<close>

lemma scan_events_late:
  "scan_events late_es index repo (set_params_defaults params) = Inr late_events"
proof -
  obtain query where "bool_query repo (set_params_defaults params) True = Inr query"
    using bool_query_defaults by blast
  then show ?thesis
    by (simp add: scan_events_def Let_def and_then_def late_es_def)
qed

text \<open>
  Claim C9. For one change whose first comment comes 172810 seconds (two days and ten
  seconds) after the change was created, \<^verbatim>\<open>_first_event_on_changes\<close> returns
  \<^verbatim>\<open>first_event_delay_avg = 10\<close>: \<^verbatim>\<open>delta.seconds\<close> leaves the whole days out. The
  author of the comment is the one first responder.
\<close>

theorem first_event_delay_drops_days:
  "first_event_on_changes late_es index repo params 1000000 =
     Inr \<lparr>first_event_delay_avg = 10, top_authors = [(Some ''alice'', 1)]\<rparr>"
  by (simp add: first_event_on_changes_def Let_def scan_events_late and_then_def late_events_def
      group_event_def timedelta_seconds_def setdefault_def sorted_desc_def)

text \<open>
  The mean that \<^verbatim>\<open>_first_event_on_changes\<close> returns is always less than one day.
\<close>

lemma summary_loop_bounds:
  assumes "summary_loop gs (d0, c0) = Inr (d, c)"
  shows "d0 \<le> d \<and> d \<le> d0 + 86399 * int (length gs)"
  using assms
proof (induction gs arbitrary: d0 c0)
  case Nil
  then show ?case by simp
next
  case (Cons g gs)
  then obtain x where x: "delta g = Some x"
    by (auto split: option.splits)
  let ?d1 = "d0 + timedelta_seconds x"
  obtain c1 where "summary_loop gs (?d1, c1) = Inr (d, c)"
    using Cons.prems x by (simp add: Let_def)
  then have "?d1 \<le> d \<and> d \<le> ?d1 + 86399 * int (length gs)"
    by (rule Cons.IH)
  moreover have "0 \<le> timedelta_seconds x \<and> timedelta_seconds x \<le> 86399"
    by (simp add: timedelta_seconds_def)
  ultimately show ?case by (simp add: algebra_simps)
qed

lemma first_event_delay_below_one_day:
  assumes "first_event_on_changes es index repo params now = Inr r"
  shows "0 \<le> first_event_delay_avg r \<and> first_event_delay_avg r < 86400"
proof -
  from assms obtain events
    where ev: "scan_events es index repo (set_params_defaults params) = Inr events"
    by (auto simp: first_event_on_changes_def Let_def and_then_def split: sum.splits)
  define groups where "groups = groups_loop now
      (groupby repository_fullname_and_number
        (sort_key repository_fullname_and_number events)) []"
  from assms ev obtain d c
    where s: "summary_loop (map snd groups) (0, []) = Inr (d, c)"
      and n: "length groups \<noteq> 0"
      and r: "first_event_delay_avg r = d div int (length groups)"
    by (auto simp: first_event_on_changes_def Let_def and_then_def groups_def
        split: sum.splits prod.splits if_splits)
  from summary_loop_bounds [OF s]
  have b: "0 \<le> d" "d \<le> 86399 * int (length groups)" by simp_all
  have pos: "0 < int (length groups)" using n by simp
  have "d div int (length groups) \<le> (86399 * int (length groups)) div int (length groups)"
    using b(2) by (rule zdiv_mono1) (rule pos)
  then have "d div int (length groups) \<le> 86399"
    using pos by simp
  moreover have "0 \<le> d div int (length groups)"
    using b(1) pos by (simp add: pos_imp_zdiv_nonneg_iff)
  ultimately show ?thesis by (simp add: r)
qed

text \<open>
  Whenever \<^verbatim>\<open>_first_event_on_changes\<close> returns, it lists at most ten first responders,
  in descending order of their counts.
\<close>

lemma first_event_top_authors:
  assumes "first_event_on_changes es index repo params now = Inr r"
  shows "length (top_authors r) \<le> 10 \<and> sorted (rev (map snd (top_authors r)))"
proof -
  obtain counts where r: "top_authors r = take 10 (sorted_desc counts)"
    using assms
    by (auto simp: first_event_on_changes_def Let_def and_then_def
        split: sum.splits prod.splits if_splits)
  have "sorted_wrt (\<lambda>x y. y \<le> x) (map snd (sorted_desc counts))"
    using sorted_desc_sorted [of counts] by (simp add: sorted_wrt_rev)
  then have "sorted_wrt (\<lambda>x y. y \<le> x) (take 10 (map snd (sorted_desc counts)))"
    by (rule sorted_wrt_take)
  then have "sorted (rev (map snd (take 10 (sorted_desc counts))))"
    by (simp add: sorted_wrt_rev take_map)
  then show ?thesis by (simp add: r)
qed

end
